theory Spec2Isabelle
  imports Complex_Main "HOL-Library.AList"
begin

section \<open>Values and exceptions\<close>

text \<open>
  The script \<^verbatim>\<open>threat_class_report.py\<close> reads two JSON documents from a remote
  taxonomy service, collects identifiers and prints a report.  The values it handles
  are what \<^verbatim>\<open>json.loads\<close> returns: \<^verbatim>\<open>None\<close>, booleans, integers, floats, strings,
  lists and dictionaries.  A dictionary is kept as an association list in which the
  first binding of a key is the one that counts.  Numbers are the finite ones:
  a float is given by the rational number it denotes.
\<close>

datatype json =
    JNull
  | JBool bool
  | JInt int
  | JFloat rat
  | JStr string
  | JArr "json list"
  | JObj "(string \<times> json) list"

text \<open>
  Every exception that one of the modelled statements can raise is a value.
  \<open>OSError\<close> stands for \<^verbatim>\<open>IOError\<close> and its subclasses, \<open>TransportFault\<close> for whatever
  the HTTP client raises when the service cannot be reached, \<open>SystemExit\<close> for the
  exit of \<^verbatim>\<open>argparse\<close> on a bad command line.
\<close>

datatype py_error =
    NameError
  | JSONDecodeError
  | AttributeError
  | TypeError
  | KeyError
  | ValueError
  | OSError
  | TransportFault
  | SystemExit

subsection \<open>The operations of Python used on these values\<close>

text \<open>\<^verbatim>\<open>key in v.keys()\<close>: only a dictionary has the method \<^verbatim>\<open>keys\<close>.\<close>

fun in_keys :: "string \<Rightarrow> json \<Rightarrow> py_error + bool" where
  "in_keys k (JObj kvs) = Inr (k \<in> fst ` set kvs)"
| "in_keys k _ = Inl AttributeError"

text \<open>\<^verbatim>\<open>v[k]\<close> for a string \<open>k\<close>: a lookup in a dictionary, a type error elsewhere.\<close>

fun getitem :: "json \<Rightarrow> string \<Rightarrow> py_error + json" where
  "getitem (JObj kvs) k = (case map_of kvs k of None \<Rightarrow> Inl KeyError | Some v \<Rightarrow> Inr v)"
| "getitem _ k = Inl TypeError"

text \<open>
  \<^verbatim>\<open>for x in v\<close>: a list yields its elements, a dictionary its keys, a string its
  characters (each a string of length one); nothing else is iterable.
\<close>

fun py_iter :: "json \<Rightarrow> py_error + json list" where
  "py_iter (JArr xs) = Inr xs"
| "py_iter (JObj kvs) = Inr (map (\<lambda>kv. JStr (fst kv)) kvs)"
| "py_iter (JStr s) = Inr (map (\<lambda>c. JStr [c]) s)"
| "py_iter _ = Inl TypeError"

section \<open>The environment of the script\<close>

text \<open>
  A response of the service, as far as the script reads it: the attributes
  \<^verbatim>\<open>status_code\<close> and \<^verbatim>\<open>text\<close>.
\<close>

record response =
  status_code :: int
  text_body :: string

text \<open>
  The client object \<^verbatim>\<open>bloxone.b1td\<close>: its list of accepted status codes and its two
  read operations.  Within one run the answer of the service is a function of the
  request; a call either returns a response or raises.
\<close>

record b1td =
  return_codes_ok :: "int list"
  threat_classes :: "py_error + response"
  threat_properties :: "json \<Rightarrow> py_error + response"

text \<open>The namespace returned by \<^verbatim>\<open>parseargs\<close>.\<close>

record args =
  config :: string
  properties :: bool
  output_arg :: "string option"
  debug :: bool

type_synonym handle = nat

text \<open>
  Everything the script takes from outside its own file is a field of the environment:
  \<^item> \<open>log_defined\<close>: whether the module-level name \<^verbatim>\<open>log\<close> is bound when a function
    other than \<^verbatim>\<open>main\<close> refers to it;
  \<^item> \<open>json_loads\<close>: the decoder \<^verbatim>\<open>json.loads\<close>;
  \<^item> \<open>py_str\<close>: the built-in \<^verbatim>\<open>str\<close> on values that are not strings;
  \<^item> \<open>parseargs_result\<close>: what \<^verbatim>\<open>argparse\<close> makes of the command line;
  \<^item> \<open>bloxone_b1td\<close>: the constructor of the client, from the name of the config file;
  \<^item> the four file operations \<^verbatim>\<open>os.path.isfile\<close>, \<^verbatim>\<open>shutil.move\<close>,
    \<^verbatim>\<open>open(_, mode='w')\<close> and \<^verbatim>\<open>close\<close>, over a state \<open>'w\<close> of the file system.
  Printing, logging through a bound logger, the progress bar and closing a file
  are taken not to raise.
\<close>

record 'w env =
  log_defined :: bool
  json_loads :: "string \<Rightarrow> py_error + json"
  py_str :: "json \<Rightarrow> string"
  parseargs_result :: "py_error + args"
  bloxone_b1td :: "string \<Rightarrow> py_error + b1td"
  os_path_isfile :: "string \<Rightarrow> 'w \<Rightarrow> bool"
  shutil_move :: "string \<Rightarrow> string \<Rightarrow> 'w \<Rightarrow> py_error option \<times> 'w"
  open_w :: "string \<Rightarrow> 'w \<Rightarrow> (py_error + handle) \<times> 'w"
  file_close :: "handle \<Rightarrow> 'w \<Rightarrow> 'w"

text \<open>
  The state of a run: the file system, the lines printed on standard output (one
  entry for each call of \<^verbatim>\<open>print\<close>), and the file operations performed so far.
\<close>

datatype fcall = Move string string | Open string | Close handle

record 'w state =
  world :: 'w
  stdout :: "string list"
  calls :: "fcall list"

text \<open>
  The functions \<^verbatim>\<open>open_file\<close>, \<^verbatim>\<open>get_classes\<close> and \<^verbatim>\<open>get_properties\<close> call methods of
  \<^verbatim>\<open>log\<close>, a name that the file binds only as a local variable of \<^verbatim>\<open>main\<close>
  (\<^verbatim>\<open>log = setup_logging(debug)\<close>, with no \<^verbatim>\<open>global\<close> statement).  In those functions
  the name is looked up in the module's globals, and the call raises \<^verbatim>\<open>NameError\<close>
  when nothing has bound it there.  Nothing in the file does: for the script run
  from the command line \<open>log_defined\<close> is \<open>False\<close>; it is \<open>True\<close> only for a caller that
  imports the module and stores a logger under that name before calling its functions.
\<close>

definition log_call :: "'w env \<Rightarrow> py_error option" where
  "log_call e = (if log_defined e then None else Some NameError)"

text \<open>\<^verbatim>\<open>'{}'.format(v)\<close>: a string is inserted as it is, another value through \<^verbatim>\<open>str\<close>.\<close>

definition py_format :: "'w env \<Rightarrow> json \<Rightarrow> string" where
  "py_format e v = (case v of JStr s \<Rightarrow> s | _ \<Rightarrow> py_str e v)"

section \<open>Dictionaries keyed by class identifiers\<close>

text \<open>
  \<^verbatim>\<open>prop_by_class\<close> is a \<^verbatim>\<open>collections.defaultdict()\<close> without a default factory, which
  behaves as a plain dictionary: a missing key raises \<^verbatim>\<open>KeyError\<close>.  Python compares
  keys by hash and \<^verbatim>\<open>==\<close>, so \<^verbatim>\<open>True\<close>, \<^verbatim>\<open>1\<close> and \<^verbatim>\<open>1.0\<close> are one key; lists and
  dictionaries are unhashable and raise \<^verbatim>\<open>TypeError\<close>.  \<open>key_of\<close> maps a value to the
  key it stands for.  The script never iterates over the dictionary, so it is kept
  as an association list with one binding for each key.
\<close>

datatype pykey = KNone | KNum rat | KStr string

fun key_of :: "json \<Rightarrow> py_error + pykey" where
  "key_of JNull = Inr KNone"
| "key_of (JBool b) = Inr (KNum (if b then 1 else 0))"
| "key_of (JInt i) = Inr (KNum (of_int i))"
| "key_of (JFloat q) = Inr (KNum q)"
| "key_of (JStr s) = Inr (KStr s)"
| "key_of (JArr xs) = Inl TypeError"
| "key_of (JObj kvs) = Inl TypeError"

type_synonym dict = "(pykey \<times> json list) list"

definition dict_setitem :: "dict \<Rightarrow> json \<Rightarrow> json list \<Rightarrow> py_error + dict" where
  "dict_setitem d k v =
     (case key_of k of Inl err \<Rightarrow> Inl err | Inr key \<Rightarrow> Inr (AList.update key v d))"

definition dict_getitem :: "dict \<Rightarrow> json \<Rightarrow> py_error + json list" where
  "dict_getitem d k =
     (case key_of k of
        Inl err \<Rightarrow> Inl err
      | Inr key \<Rightarrow> (case map_of d key of None \<Rightarrow> Inl KeyError | Some v \<Rightarrow> Inr v))"

section \<open>The functions of the script\<close>

subsection \<open>\<^verbatim>\<open>open_file\<close>\<close>

text \<open>
  The result is a file object or \<^verbatim>\<open>False\<close> (\<open>None\<close> here).  The bare \<^verbatim>\<open>except:\<close> around
  the move also catches what the statements after the move raise inside the \<^verbatim>\<open>try\<close>
  block, among them the \<^verbatim>\<open>NameError\<close> of \<^verbatim>\<open>log.info\<close>; its handler calls \<^verbatim>\<open>log.warning\<close>
  in turn.  \<^verbatim>\<open>except IOError\<close> catches \<open>OSError\<close> only.
\<close>

definition record_call :: "fcall \<Rightarrow> 'w \<Rightarrow> 'w state \<Rightarrow> 'w state" where
  "record_call c w s = s\<lparr>world := w, calls := calls s @ [c]\<rparr>"

definition open_file :: "'w env \<Rightarrow> string \<Rightarrow> 'w state \<Rightarrow> (py_error + handle option) \<times> 'w state" where
  "open_file e filename s =
     (if os_path_isfile e filename (world s) then
        (let backup = filename @ ''.bak'';
             except_all = (\<lambda>s'. case log_call e of
                                   Some err \<Rightarrow> (Inl err, s')
                                 | None \<Rightarrow> (Inr None, s'))
         in case shutil_move e filename backup (world s) of
           (moved, w1) \<Rightarrow>
             (let s1 = record_call (Move filename backup) w1 s in
              case moved of
                Some err \<Rightarrow> except_all s1
              | None \<Rightarrow>
                 (case log_call e of
                    Some err \<Rightarrow> except_all s1
                  | None \<Rightarrow>
                     (case open_w e filename (world s1) of
                        (opened, w2) \<Rightarrow>
                          (let s2 = record_call (Open filename) w2 s1 in
                           case opened of
                             Inr handler \<Rightarrow>
                               (case log_call e of
                                  Some err \<Rightarrow> except_all s2
                                | None \<Rightarrow> (Inr (Some handler), s2))
                           | Inl err \<Rightarrow>
                               (if err = OSError then
                                  (case log_call e of
                                     Some err' \<Rightarrow> except_all s2
                                   | None \<Rightarrow> (Inr None, s2))
                                else except_all s2))))))
      else
        (case open_w e filename (world s) of
           (opened, w1) \<Rightarrow>
             (let s1 = record_call (Open filename) w1 s in
              case opened of
                Inr handler \<Rightarrow>
                  (case log_call e of
                     Some err \<Rightarrow> (Inl err, s1)
                   | None \<Rightarrow> (Inr (Some handler), s1))
              | Inl err \<Rightarrow>
                  (if err = OSError then
                     (case log_call e of
                        Some err' \<Rightarrow> (Inl err', s1)
                      | None \<Rightarrow> (Inr None, s1))
                   else (Inl err, s1)))))"

subsection \<open>\<^verbatim>\<open>get_classes\<close> and \<^verbatim>\<open>get_properties\<close>\<close>

text \<open>
  The loop \<^verbatim>\<open>for tclass in ...: threat_classes.append(tclass['id'])\<close>, with the list
  built so far as accumulator.  The first element without an \<^verbatim>\<open>id\<close> ends it with
  the exception of the subscript.
\<close>

fun append_ids :: "json list \<Rightarrow> json list \<Rightarrow> py_error + json list" where
  "append_ids [] acc = Inr acc"
| "append_ids (item # rest) acc =
     (case getitem item ''id'' of
        Inl err \<Rightarrow> Inl err
      | Inr v \<Rightarrow> append_ids rest (acc @ [v]))"

definition get_classes :: "'w env \<Rightarrow> b1td \<Rightarrow> py_error + json list" where
  "get_classes e b =
     (case threat_classes b of
        Inl err \<Rightarrow> Inl err
      | Inr response \<Rightarrow>
          if status_code response \<in> set (return_codes_ok b) then
            (case json_loads e (text_body response) of
               Inl err \<Rightarrow> Inl err
             | Inr parsed_json \<Rightarrow>
                 (case in_keys ''threat_class'' parsed_json of
                    Inl err \<Rightarrow> Inl err
                  | Inr present \<Rightarrow>
                      if present then
                        (case getitem parsed_json ''threat_class'' of
                           Inl err \<Rightarrow> Inl err
                         | Inr field \<Rightarrow>
                             (case py_iter field of
                                Inl err \<Rightarrow> Inl err
                              | Inr items \<Rightarrow> append_ids items []))
                      else
                        (case log_call e of Some err \<Rightarrow> Inl err | None \<Rightarrow> Inr [])))
          else
            (case log_call e of Some err \<Rightarrow> Inl err | None \<Rightarrow> Inr []))"

definition get_properties :: "'w env \<Rightarrow> b1td \<Rightarrow> json \<Rightarrow> py_error + json list" where
  "get_properties e b tclass =
     (case threat_properties b tclass of
        Inl err \<Rightarrow> Inl err
      | Inr response \<Rightarrow>
          if status_code response \<in> set (return_codes_ok b) then
            (case json_loads e (text_body response) of
               Inl err \<Rightarrow> Inl err
             | Inr parsed_json \<Rightarrow>
                 (case in_keys ''property'' parsed_json of
                    Inl err \<Rightarrow> Inl err
                  | Inr present \<Rightarrow>
                      if present then
                        (case getitem parsed_json ''property'' of
                           Inl err \<Rightarrow> Inl err
                         | Inr field \<Rightarrow>
                             (case py_iter field of
                                Inl err \<Rightarrow> Inl err
                              | Inr items \<Rightarrow> append_ids items []))
                      else
                        (case log_call e of Some err \<Rightarrow> Inl err | None \<Rightarrow> Inr [])))
          else
            (case log_call e of Some err \<Rightarrow> Inl err | None \<Rightarrow> Inr []))"

subsection \<open>\<^verbatim>\<open>output_report\<close>\<close>

text \<open>
  The grouped loop, over the lines printed so far.  For each class it prints an empty
  line and two header lines, then looks the class up; a failing lookup ends the
  function with what has been printed up to there.
\<close>

fun report_grouped ::
  "'w env \<Rightarrow> json list \<Rightarrow> dict \<Rightarrow> string list \<Rightarrow> py_error option \<times> string list" where
  "report_grouped e [] prop_by_class out = (None, out)"
| "report_grouped e (tclass # rest) prop_by_class out =
     (let out1 = out @ ['''', ''Threat Class: '' @ py_format e tclass,
                        '' Associated Threat Properties:'']
      in case dict_getitem prop_by_class tclass of
           Inl err \<Rightarrow> (Some err, out1)
         | Inr props \<Rightarrow>
             report_grouped e rest prop_by_class
               (out1 @ map (\<lambda>prop. ''     '' @ py_format e prop) props))"

text \<open>\<^verbatim>\<open>if prop_by_class:\<close> is true of a dictionary with at least one key.\<close>

definition output_report ::
  "'w env \<Rightarrow> json list \<Rightarrow> dict \<Rightarrow> 'w state \<Rightarrow> py_error option \<times> 'w state" where
  "output_report e classes prop_by_class s =
     (if prop_by_class \<noteq> [] then
        (case report_grouped e classes prop_by_class (stdout s) of
           (Some err, out) \<Rightarrow> (Some err, s\<lparr>stdout := out\<rparr>)
         | (None, out) \<Rightarrow> (None, s\<lparr>stdout := out @ ['''']\<rparr>))
      else
        (None, s\<lparr>stdout := stdout s @ [''Threat Classes:'']
                     @ map (\<lambda>tclass. ''     '' @ py_format e tclass) classes @ ['''']\<rparr>))"

subsection \<open>\<^verbatim>\<open>main\<close>\<close>

text \<open>
  The loop \<^verbatim>\<open>for tc in threat_classes: prop_by_class[tc] = get_properties(b1td, tc)\<close>.
  The right-hand side is evaluated first, so an exception of the fetch comes before
  the one of an unhashable key.
\<close>

fun collect_properties :: "'w env \<Rightarrow> b1td \<Rightarrow> json list \<Rightarrow> dict \<Rightarrow> py_error + dict" where
  "collect_properties e b [] prop_by_class = Inr prop_by_class"
| "collect_properties e b (tc # rest) prop_by_class =
     (case get_properties e b tc of
        Inl err \<Rightarrow> Inl err
      | Inr props \<Rightarrow>
          (case dict_setitem prop_by_class tc props of
             Inl err \<Rightarrow> Inl err
           | Inr d \<Rightarrow> collect_properties e b rest d))"

text \<open>
  \<^verbatim>\<open>main\<close> returns the exit code, which the last line of the file hands to \<^verbatim>\<open>exit\<close>.
  Its own logger is the local variable \<^verbatim>\<open>log\<close>, bound before its first use, so the
  log calls written in \<^verbatim>\<open>main\<close> itself do nothing to the state.  \<^verbatim>\<open>if outputfile:\<close>
  is false of \<^verbatim>\<open>None\<close> and of the empty string, and \<^verbatim>\<open>if outfile:\<close> is true of every
  file object.
\<close>

definition main :: "'w env \<Rightarrow> 'w state \<Rightarrow> (py_error + int) \<times> 'w state" where
  "main e s =
     (let exitcode = 0 in
      case parseargs_result e of
        Inl err \<Rightarrow> (Inl err, s)
      | Inr args \<Rightarrow>
          (let add_properties = properties args;
               outputfile = output_arg args;
               configfile = (if config args \<noteq> [] then config args else ''config.ini'')
           in case bloxone_b1td e configfile of
                Inl err \<Rightarrow> (Inl err, s)
              | Inr b \<Rightarrow>
                  (case (case outputfile of
                           None \<Rightarrow> (Inr None, s)
                         | Some filename \<Rightarrow>
                             if filename \<noteq> [] then open_file e filename s
                             else (Inr None, s)) of
                     (Inl err, s1) \<Rightarrow> (Inl err, s1)
                   | (Inr outfile, s1) \<Rightarrow>
                       (case get_classes e b of
                          Inl err \<Rightarrow> (Inl err, s1)
                        | Inr classes \<Rightarrow>
                            (case (if add_properties
                                   then collect_properties e b classes []
                                   else Inr []) of
                               Inl err \<Rightarrow> (Inl err, s1)
                             | Inr prop_by_class \<Rightarrow>
                                 (case output_report e classes prop_by_class s1 of
                                    (Some err, s2) \<Rightarrow> (Inl err, s2)
                                  | (None, s2) \<Rightarrow>
                                      (case outfile of
                                         Some h \<Rightarrow>
                                           (Inr exitcode,
                                            record_call (Close h) (file_close e h (world s2)) s2)
                                       | None \<Rightarrow> (Inr exitcode, s2))))))))"

section \<open>A reference environment for concrete runs\<close>

text \<open>
  The theorems below hold for every environment.  Concrete runs need one: a file
  system that maps paths to contents, with a list of paths on which every rename or
  creation is denied, and a decoder that knows the documents of the examples.
\<close>

record fs =
  files :: "(string \<times> string) list"
  denied :: "string list"

definition ex_isfile :: "string \<Rightarrow> fs \<Rightarrow> bool" where
  "ex_isfile p w = (p \<in> fst ` set (files w))"

definition ex_move :: "string \<Rightarrow> string \<Rightarrow> fs \<Rightarrow> py_error option \<times> fs" where
  "ex_move src dst w =
     (if src \<in> set (denied w) then (Some OSError, w)
      else case map_of (files w) src of
             None \<Rightarrow> (Some OSError, w)
           | Some content \<Rightarrow>
               (None, w\<lparr>files := AList.update dst content (AList.delete src (files w))\<rparr>))"

definition ex_open :: "string \<Rightarrow> fs \<Rightarrow> (py_error + handle) \<times> fs" where
  "ex_open p w =
     (if p \<in> set (denied w) then (Inl OSError, w)
      else (Inr 3, w\<lparr>files := AList.update p [] (files w)\<rparr>))"

definition classes_doc :: string where
  \<open>classes_doc = ''{"threat_class":[{"id":"malware"},{"id":"phishing"}]}''\<close>

definition properties_doc :: string where
  \<open>properties_doc = ''{"property":[{"id":"trojan"},{"id":"worm"}]}''\<close>

definition ex_loads :: "string \<Rightarrow> py_error + json" where
  "ex_loads s =
     (if s = classes_doc then
        Inr (JObj [(''threat_class'',
              JArr [JObj [(''id'', JStr ''malware'')], JObj [(''id'', JStr ''phishing'')]])])
      else if s = properties_doc then
        Inr (JObj [(''property'',
              JArr [JObj [(''id'', JStr ''trojan'')], JObj [(''id'', JStr ''worm'')]])])
      else if s = ''{}'' then Inr (JObj [])
      else Inl JSONDecodeError)"

definition ex_env :: "bool \<Rightarrow> args \<Rightarrow> b1td \<Rightarrow> fs env" where
  "ex_env bound a b =
     \<lparr>log_defined = bound, json_loads = ex_loads, py_str = (\<lambda>v. ''?''),
      parseargs_result = Inr a, bloxone_b1td = (\<lambda>configfile. Inr b),
      os_path_isfile = ex_isfile, shutil_move = ex_move, open_w = ex_open,
      file_close = (\<lambda>h w. w)\<rparr>"

text \<open>
  The service of the end-to-end scenario of the specification: two classes, two
  properties for \<open>malware\<close>, status 503 for \<open>phishing\<close>.
\<close>

definition ex_b1td :: b1td where
  "ex_b1td =
     \<lparr>return_codes_ok = [200, 201, 204],
      threat_classes = Inr \<lparr>status_code = 200, text_body = classes_doc\<rparr>,
      threat_properties = (\<lambda>tclass.
        if tclass = JStr ''malware'' then Inr \<lparr>status_code = 200, text_body = properties_doc\<rparr>
        else Inr \<lparr>status_code = 503, text_body = ''Service Unavailable''\<rparr>)\<rparr>"

definition ex_args :: "bool \<Rightarrow> string option \<Rightarrow> args" where
  "ex_args p out = \<lparr>config = ''config.ini'', properties = p, output_arg = out, debug = False\<rparr>"

definition ex_state :: "(string \<times> string) list \<Rightarrow> string list \<Rightarrow> fs state" where
  "ex_state fls dnd = \<lparr>world = \<lparr>files = fls, denied = dnd\<rparr>, stdout = [], calls = []\<rparr>"

text \<open>
  Four more services: one that answers every request with a document that has neither
  field, one whose bodies are not JSON, one that answers every request with status
  503, and one that cannot be reached.
\<close>

definition empty_doc_b1td :: b1td where
  "empty_doc_b1td =
     \<lparr>return_codes_ok = [200, 201, 204],
      threat_classes = Inr \<lparr>status_code = 200, text_body = ''{}''\<rparr>,
      threat_properties = (\<lambda>tclass. Inr \<lparr>status_code = 200, text_body = ''{}''\<rparr>)\<rparr>"

definition malformed_b1td :: b1td where
  \<open>malformed_b1td =
     \<lparr>return_codes_ok = [200, 201, 204],
      threat_classes = Inr \<lparr>status_code = 200, text_body = ''{"threat_class": [''\<rparr>,
      threat_properties = (\<lambda>tclass. Inr \<lparr>status_code = 200, text_body = ''<html>''\<rparr>)\<rparr>\<close>

definition failing_b1td :: b1td where
  "failing_b1td =
     \<lparr>return_codes_ok = [200, 201, 204],
      threat_classes = Inr \<lparr>status_code = 503, text_body = ''Service Unavailable''\<rparr>,
      threat_properties =
        (\<lambda>tclass. Inr \<lparr>status_code = 503, text_body = ''Service Unavailable''\<rparr>)\<rparr>"

definition unreachable_b1td :: b1td where
  "unreachable_b1td =
     \<lparr>return_codes_ok = [200, 201, 204],
      threat_classes = Inl TransportFault,
      threat_properties = (\<lambda>tclass. Inl TransportFault)\<rparr>"

section \<open>Notions of the specification\<close>

text \<open>
  A property fetch has failed, in the words of the specification, when the call
  returned a response whose status is not in the ok-set or whose body is malformed:
  not JSON, or without the field \<^verbatim>\<open>property\<close>.
\<close>

definition fetch_failed :: "'w env \<Rightarrow> b1td \<Rightarrow> json \<Rightarrow> bool" where
  "fetch_failed e b tclass =
     (case threat_properties b tclass of
        Inl err \<Rightarrow> False
      | Inr response \<Rightarrow>
          status_code response \<notin> set (return_codes_ok b)
          \<or> (case json_loads e (text_body response) of
                Inl err \<Rightarrow> True
              | Inr parsed_json \<Rightarrow> in_keys ''property'' parsed_json \<noteq> Inr True))"

text \<open>
  The lines of one class in a grouped report: the header (an empty line, the class,
  the caption of its properties) and one indented line for each property that the
  mapping holds for the class.
\<close>

definition props_of :: "dict \<Rightarrow> json \<Rightarrow> json list" where
  "props_of d tclass = (case dict_getitem d tclass of Inr props \<Rightarrow> props | Inl err \<Rightarrow> [])"

definition class_header :: "'w env \<Rightarrow> json \<Rightarrow> string list" where
  "class_header e tclass =
     ['''', ''Threat Class: '' @ py_format e tclass, '' Associated Threat Properties:'']"

definition class_block :: "'w env \<Rightarrow> dict \<Rightarrow> json \<Rightarrow> string list" where
  "class_block e d tclass =
     class_header e tclass @ map (\<lambda>prop. ''     '' @ py_format e prop) (props_of d tclass)"

section \<open>Fetching identifiers\<close>

lemma append_ids_Inr_iff:
  "append_ids items acc = Inr ids \<longleftrightarrow>
     (\<exists>vs. ids = acc @ vs \<and> map (\<lambda>x. getitem x ''id'') items = map Inr vs)"
proof (induction items arbitrary: acc)
  case Nil
  show ?case by auto
next
  case (Cons item rest)
  show ?case
  proof (cases "getitem item ''id''")
    case (Inl err)
    then show ?thesis by (auto simp: map_eq_Cons_conv)
  next
    case (Inr v)
    then show ?thesis by (auto simp: Cons.IH map_eq_Cons_conv Cons_eq_map_conv)
  qed
qed

lemma in_keys_map_of: "map_of kvs k = Some v \<Longrightarrow> k \<in> fst ` set kvs"
  by (metis domI dom_map_of_conv_image_fst)

text \<open>
  C4.  For a well-formed taxonomy response (a status of the ok-set, a body that
  decodes to an object whose field \<^verbatim>\<open>threat_class\<close> is an array of elements that each
  carry an \<^verbatim>\<open>id\<close>), \<^verbatim>\<open>get_classes\<close> returns exactly the \<^verbatim>\<open>id\<close> of each element, in the
  order of the array: as many identifiers as elements, the i-th identifier being the
  \<^verbatim>\<open>id\<close> of the i-th element, so that no duplicate is added or dropped.
\<close>

theorem get_classes_preserves_order:
  assumes "threat_classes b = Inr r"
    and "status_code r \<in> set (return_codes_ok b)"
    and "json_loads e (text_body r) = Inr (JObj kvs)"
    and "map_of kvs ''threat_class'' = Some (JArr items)"
    and "\<forall>x\<in>set items. \<exists>v. getitem x ''id'' = Inr v"
  shows "\<exists>ids. get_classes e b = Inr ids \<and> map Inr ids = map (\<lambda>x. getitem x ''id'') items"
proof -
  from assms(5) have "\<exists>vs. map (\<lambda>x. getitem x ''id'') items = map Inr vs"
  proof (induction items)
    case Nil
    then show ?case by simp
  next
    case (Cons x xs)
    then obtain v vs where "getitem x ''id'' = Inr v"
      and "map (\<lambda>x. getitem x ''id'') xs = map Inr vs" by auto
    then have "map (\<lambda>x. getitem x ''id'') (x # xs) = map Inr (v # vs)" by simp
    then show ?case by blast
  qed
  then obtain vs where vs: "map (\<lambda>x. getitem x ''id'') items = map Inr vs" ..
  then have "append_ids items [] = Inr vs" by (simp add: append_ids_Inr_iff)
  with assms(1-4) have "get_classes e b = Inr vs"
    by (simp add: get_classes_def in_keys_map_of)
  with vs show ?thesis by simp
qed

theorem get_classes_preserves_order_witness:
  "get_classes (ex_env False (ex_args False None) ex_b1td) ex_b1td
     = Inr [JStr ''malware'', JStr ''phishing'']"
proof -
  let ?e = "ex_env False (ex_args False None) ex_b1td"
  let ?items = "[JObj [(''id'', JStr ''malware'')], JObj [(''id'', JStr ''phishing'')]]"
  have h1: "threat_classes ex_b1td = Inr \<lparr>status_code = 200, text_body = classes_doc\<rparr>"
    by (simp add: ex_b1td_def)
  have h2: "status_code \<lparr>status_code = 200, text_body = classes_doc\<rparr>
      \<in> set (return_codes_ok ex_b1td)"
    by (simp add: ex_b1td_def)
  have h3: "json_loads ?e (text_body \<lparr>status_code = 200, text_body = classes_doc\<rparr>)
      = Inr (JObj [(''threat_class'', JArr ?items)])"
    by (simp add: ex_env_def ex_loads_def)
  have h4: "map_of [(''threat_class'', JArr ?items)] ''threat_class'' = Some (JArr ?items)"
    by simp
  have h5: "\<forall>x\<in>set ?items. \<exists>v. getitem x ''id'' = Inr v"
    by simp
  from get_classes_preserves_order [OF h1 h2 h3 h4 h5]
  show ?thesis by (auto simp: map_eq_Cons_conv)
qed

text \<open>
  C2 says that a body that is malformed JSON, or that lacks the expected field, makes
  \<^verbatim>\<open>get_classes\<close> and \<^verbatim>\<open>get_properties\<close> return an empty sequence without raising.
  Neither function catches anything: under a status of the ok-set the body goes to
  \<^verbatim>\<open>json.loads\<close>, whose exception leaves the function.
\<close>

theorem get_ids_malformed_counterexample:
  "get_classes (ex_env True (ex_args True None) malformed_b1td) malformed_b1td
     = Inl JSONDecodeError
   \<and> get_properties (ex_env True (ex_args True None) malformed_b1td) malformed_b1td
       (JStr ''malware'') = Inl JSONDecodeError"
  by code_simp

text \<open>
  C2, amended.  Under a status of the ok-set, a body that decodes to a JSON object
  without the expected field (\<^verbatim>\<open>threat_class\<close> for classes, \<^verbatim>\<open>property\<close> for properties)
  makes each function return an empty sequence without raising, where the
  module-level logger is bound; a body that is not JSON makes each function raise
  the exception of the decoder.
\<close>

theorem get_ids_missing_field_or_malformed:
  "(log_defined e \<and> threat_classes b = Inr r \<and> status_code r \<in> set (return_codes_ok b)
      \<and> json_loads e (text_body r) = Inr (JObj kvs) \<and> ''threat_class'' \<notin> fst ` set kvs
     \<longrightarrow> get_classes e b = Inr [])
   \<and> (log_defined e \<and> threat_properties b tc = Inr r' \<and> status_code r' \<in> set (return_codes_ok b)
      \<and> json_loads e (text_body r') = Inr (JObj kvs') \<and> ''property'' \<notin> fst ` set kvs'
     \<longrightarrow> get_properties e b tc = Inr [])
   \<and> (threat_classes b = Inr m \<and> status_code m \<in> set (return_codes_ok b)
      \<and> json_loads e (text_body m) = Inl err
     \<longrightarrow> get_classes e b = Inl err)
   \<and> (threat_properties b tc = Inr m' \<and> status_code m' \<in> set (return_codes_ok b)
      \<and> json_loads e (text_body m') = Inl err'
     \<longrightarrow> get_properties e b tc = Inl err')"
  by (simp add: get_classes_def get_properties_def log_call_def)

theorem get_ids_missing_field_or_malformed_witness:
  "get_classes (ex_env True (ex_args True None) empty_doc_b1td) empty_doc_b1td = Inr []
   \<and> get_properties (ex_env True (ex_args True None) empty_doc_b1td) empty_doc_b1td
       (JStr ''malware'') = Inr []
   \<and> get_classes (ex_env True (ex_args True None) malformed_b1td) malformed_b1td
       = Inl JSONDecodeError
   \<and> get_properties (ex_env True (ex_args True None) malformed_b1td) malformed_b1td
       (JStr ''malware'') = Inl JSONDecodeError"
proof -
  let ?e1 = "ex_env True (ex_args True None) empty_doc_b1td"
  let ?e2 = "ex_env True (ex_args True None) malformed_b1td"
  let ?r = "\<lparr>status_code = 200, text_body = ''{}''\<rparr>"
  have a: "log_defined ?e1" "json_loads ?e1 ''{}'' = Inr (JObj [])"
    by (simp_all add: ex_env_def ex_loads_def classes_doc_def properties_doc_def)
  have b: "threat_classes empty_doc_b1td = Inr ?r"
    "threat_properties empty_doc_b1td (JStr ''malware'') = Inr ?r"
    "return_codes_ok empty_doc_b1td = [200, 201, 204]"
    by (simp_all add: empty_doc_b1td_def)
  have c: \<open>threat_classes malformed_b1td
      = Inr \<lparr>status_code = 200, text_body = ''{"threat_class": [''\<rparr>\<close>
    "threat_properties malformed_b1td (JStr ''malware'')
      = Inr \<lparr>status_code = 200, text_body = ''<html>''\<rparr>"
    "return_codes_ok malformed_b1td = [200, 201, 204]"
    by (simp_all add: malformed_b1td_def)
  have d: \<open>json_loads ?e2 ''{"threat_class": ['' = Inl JSONDecodeError\<close>
    "json_loads ?e2 ''<html>'' = Inl JSONDecodeError"
    by (simp_all add: ex_env_def ex_loads_def classes_doc_def properties_doc_def)
  from get_ids_missing_field_or_malformed
         [of ?e1 empty_doc_b1td ?r "[]" "JStr ''malware''" ?r "[]"]
       a b
  have 1: "get_classes ?e1 empty_doc_b1td = Inr []"
    and 2: "get_properties ?e1 empty_doc_b1td (JStr ''malware'') = Inr []"
    by simp_all
  from get_ids_missing_field_or_malformed
         [where e = ?e2 and b = malformed_b1td and tc = "JStr ''malware''"
            and m = \<open>\<lparr>status_code = 200, text_body = ''{"threat_class": [''\<rparr>\<close>
            and m' = "\<lparr>status_code = 200, text_body = ''<html>''\<rparr>"
            and err = JSONDecodeError and err' = JSONDecodeError]
       c d
  have 3: "get_classes ?e2 malformed_b1td = Inl JSONDecodeError"
    and 4: "get_properties ?e2 malformed_b1td (JStr ''malware'') = Inl JSONDecodeError"
    by simp_all
  from 1 2 3 4 show ?thesis by simp
qed

section \<open>The collection loop\<close>

lemma fetch_failed_empty:
  "fetch_failed e b c \<Longrightarrow> get_properties e b c = Inr props \<Longrightarrow> props = []"
  by (auto simp: fetch_failed_def get_properties_def split: sum.splits if_splits option.splits)

lemma collect_properties_keys:
  "collect_properties e b cs d = Inr d' \<Longrightarrow>
     Inr ` fst ` set d' = Inr ` fst ` set d \<union> key_of ` set cs"
proof (induction cs arbitrary: d)
  case Nil
  then show ?case by simp
next
  case (Cons tc rest)
  from Cons.prems obtain props k
    where p: "get_properties e b tc = Inr props"
      and k: "key_of tc = Inr k"
      and r: "collect_properties e b rest (AList.update k props d) = Inr d'"
    by (auto simp: dict_setitem_def split: sum.splits)
  from Cons.IH [OF r] k show ?case
    by (auto simp: AList.dom_update)
qed

lemma collect_properties_length:
  "collect_properties e b cs d = Inr d' \<Longrightarrow> length d' \<le> length d + length cs"
proof (induction cs arbitrary: d)
  case Nil
  then show ?case by simp
next
  case (Cons tc rest)
  from Cons.prems obtain props k
    where r: "collect_properties e b rest (AList.update k props d) = Inr d'"
    by (auto simp: dict_setitem_def split: sum.splits)
  have "length (AList.update k props d) \<le> Suc (length d)"
    by (induction d) auto
  with Cons.IH [OF r] show ?case by simp
qed

lemma collect_properties_distinct:
  "collect_properties e b cs d = Inr d' \<Longrightarrow> distinct (map fst d) \<Longrightarrow> distinct (map fst d')"
proof (induction cs arbitrary: d)
  case Nil
  then show ?case by simp
next
  case (Cons tc rest)
  from Cons.prems(1) obtain props k
    where r: "collect_properties e b rest (AList.update k props d) = Inr d'"
    by (auto simp: dict_setitem_def split: sum.splits)
  from Cons.IH [OF r] Cons.prems(2) show ?case by (simp add: AList.distinct_update)
qed

lemma collect_properties_fetched:
  "collect_properties e b cs d = Inr d' \<Longrightarrow> c \<in> set cs \<Longrightarrow>
     \<exists>props k. get_properties e b c = Inr props \<and> key_of c = Inr k"
  by (induction cs arbitrary: d) (auto simp: dict_setitem_def split: sum.splits)

lemma collect_properties_other:
  "collect_properties e b cs d = Inr d' \<Longrightarrow> Inr k \<notin> key_of ` set cs \<Longrightarrow>
     map_of d' k = map_of d k"
proof (induction cs arbitrary: d)
  case Nil
  then show ?case by simp
next
  case (Cons tc rest)
  from Cons.prems(1) obtain props k'
    where k': "key_of tc = Inr k'"
      and r: "collect_properties e b rest (AList.update k' props d) = Inr d'"
    by (auto simp: dict_setitem_def split: sum.splits)
  from Cons.prems(2) k' have "k' \<noteq> k" and "Inr k \<notin> key_of ` set rest" by auto
  with Cons.IH [OF r] show ?case by (simp add: AList.update_conv')
qed

lemma collect_properties_lookup:
  "collect_properties e b cs d = Inr d' \<Longrightarrow> inj_on key_of (set cs) \<Longrightarrow> c \<in> set cs \<Longrightarrow>
     dict_getitem d' c = get_properties e b c"
proof (induction cs arbitrary: d)
  case Nil
  then show ?case by simp
next
  case (Cons tc rest)
  from Cons.prems(1) obtain props k
    where p: "get_properties e b tc = Inr props"
      and k: "key_of tc = Inr k"
      and r: "collect_properties e b rest (AList.update k props d) = Inr d'"
    by (auto simp: dict_setitem_def split: sum.splits)
  from Cons.prems(2) have inj: "inj_on key_of (set rest)"
    by (simp add: inj_on_def)
  show ?case
  proof (cases "c \<in> set rest")
    case True
    with Cons.IH [OF r inj] show ?thesis by simp
  next
    case False
    with Cons.prems(3) have c: "c = tc" by simp
    with False Cons.prems(2) k have "Inr k \<notin> key_of ` set rest"
      by (auto simp: inj_on_def)
    from collect_properties_other [OF r this] have "map_of d' k = Some props"
      by (simp add: AList.update_conv')
    with c k p show ?thesis by (simp add: dict_getitem_def)
  qed
qed

lemma ex_collect:
  "collect_properties (ex_env True (ex_args True None) ex_b1td) ex_b1td
       [JStr ''malware'', JStr ''phishing''] []
     = Inr [(KStr ''malware'', [JStr ''trojan'', JStr ''worm'']), (KStr ''phishing'', [])]"
  by code_simp

text \<open>
  C1 says that a class whose property fetch returned a status outside the ok-set or
  a malformed body is absent from the mapping.  The loop assigns the result of every
  fetch, so in the scenario of the specification \<open>phishing\<close>, whose fetch is answered
  with status 503, is a key of the mapping, bound to the empty list.
\<close>

theorem failed_fetch_absent_counterexample:
  "fetch_failed (ex_env True (ex_args True None) ex_b1td) ex_b1td (JStr ''phishing'')
   \<and> collect_properties (ex_env True (ex_args True None) ex_b1td) ex_b1td
         [JStr ''malware'', JStr ''phishing''] []
       = Inr [(KStr ''malware'', [JStr ''trojan'', JStr ''worm'']), (KStr ''phishing'', [])]
   \<and> dict_getitem [(KStr ''malware'', [JStr ''trojan'', JStr ''worm'']), (KStr ''phishing'', [])]
         (JStr ''phishing'') = Inr []"
  by code_simp

text \<open>
  C1, amended.  When the collection loop over a class sequence of length N completes,
  the mapping has between 0 and N keys and every class of the sequence is one of them;
  where the classes stand for different keys, a class whose fetch failed is present
  with the empty list.
\<close>

theorem collected_mapping_has_every_class:
  assumes "collect_properties e b classes [] = Inr d"
  shows "0 \<le> length d \<and> length d \<le> length classes
    \<and> (\<forall>c\<in>set classes. \<exists>props. dict_getitem d c = Inr props)
    \<and> (inj_on key_of (set classes) \<longrightarrow>
         (\<forall>c\<in>set classes. fetch_failed e b c \<longrightarrow> dict_getitem d c = Inr []))"
proof -
  have len: "length d \<le> length classes"
    using collect_properties_length [OF assms] by simp
  have present: "\<exists>props. dict_getitem d c = Inr props" if "c \<in> set classes" for c
  proof -
    from collect_properties_fetched [OF assms that] obtain k where k: "key_of c = Inr k"
      by blast
    from that collect_properties_keys [OF assms] have "key_of c \<in> Inr ` fst ` set d"
      by simp
    with k have "k \<in> fst ` set d" by auto
    then obtain props where "map_of d k = Some props"
      by (metis domD dom_map_of_conv_image_fst)
    with k show ?thesis by (simp add: dict_getitem_def)
  qed
  have failed: "dict_getitem d c = Inr []"
    if "inj_on key_of (set classes)" "c \<in> set classes" "fetch_failed e b c" for c
  proof -
    from collect_properties_fetched [OF assms that(2)] obtain props
      where p: "get_properties e b c = Inr props" by blast
    with fetch_failed_empty [OF that(3)] have "props = []" by simp
    with p collect_properties_lookup [OF assms that(1,2)] show ?thesis by simp
  qed
  from len present failed show ?thesis by blast
qed

theorem collected_mapping_has_every_class_witness:
  "inj_on key_of (set [JStr ''malware'', JStr ''phishing''])
   \<and> fetch_failed (ex_env True (ex_args True None) ex_b1td) ex_b1td (JStr ''phishing'')
   \<and> length [(KStr ''malware'', [JStr ''trojan'', JStr ''worm'']), (KStr ''phishing'', [])] \<le> 2
   \<and> dict_getitem [(KStr ''malware'', [JStr ''trojan'', JStr ''worm'']), (KStr ''phishing'', [])]
         (JStr ''phishing'') = Inr []"
proof -
  have inj: "inj_on key_of (set [JStr ''malware'', JStr ''phishing''])" by simp
  have failed: "fetch_failed (ex_env True (ex_args True None) ex_b1td) ex_b1td (JStr ''phishing'')"
    by code_simp
  from collected_mapping_has_every_class [OF ex_collect] inj failed
  show ?thesis by simp
qed

text \<open>
  C10.  When the collection loop completes, the keys of the mapping are exactly the
  keys of the classes of the sequence, one binding each: every class that was
  fetched has an entry, also one whose fetch gave the empty list.
\<close>

theorem collected_mapping_key_set:
  assumes "collect_properties e b classes [] = Inr d"
  shows "Inr ` fst ` set d = key_of ` set classes \<and> distinct (map fst d)"
  using collect_properties_keys [OF assms] collect_properties_distinct [OF assms] by simp

theorem collected_mapping_key_set_witness:
  "Inr ` fst ` set [(KStr ''malware'', [JStr ''trojan'', JStr ''worm'']), (KStr ''phishing'', [])]
     = key_of ` set [JStr ''malware'', JStr ''phishing'']"
proof -
  have "collect_properties (ex_env True (ex_args True None) ex_b1td) ex_b1td
       [JStr ''malware'', JStr ''phishing''] []
     = Inr [(KStr ''malware'', [JStr ''trojan'', JStr ''worm'']), (KStr ''phishing'', [])]"
    by code_simp
  from collected_mapping_key_set [OF this] show ?thesis by simp
qed

section \<open>The report\<close>

lemma report_grouped_present:
  "\<forall>c\<in>set cs. \<exists>props. dict_getitem d c = Inr props \<Longrightarrow>
     report_grouped e cs d out = (None, out @ concat (map (class_block e d) cs))"
  by (induction cs arbitrary: out)
     (auto simp: class_block_def class_header_def props_of_def)

lemma report_grouped_absent:
  "\<forall>c\<in>set pre. \<exists>props. dict_getitem d c = Inr props \<Longrightarrow> dict_getitem d c = Inl err \<Longrightarrow>
     report_grouped e (pre @ c # post) d out
       = (Some err, out @ concat (map (class_block e d) pre) @ class_header e c)"
  by (induction pre arbitrary: out)
     (auto simp: class_block_def class_header_def props_of_def)

lemma report_grouped_lines:
  "\<exists>new. snd (report_grouped e cs d out) = out @ new \<and> ''Threat Classes:'' \<notin> set new"
proof (induction cs arbitrary: out)
  case Nil
  show ?case by simp
next
  case (Cons c cs)
  let ?hdr = "['''', ''Threat Class: '' @ py_format e c, '' Associated Threat Properties:'']"
  have hdr: "''Threat Classes:'' \<notin> set ?hdr" by simp
  show ?case
  proof (cases "dict_getitem d c")
    case (Inl err)
    with hdr show ?thesis by simp
  next
    case (Inr props)
    let ?lines = "map (\<lambda>prop. ''     '' @ py_format e prop) props"
    from Cons.IH [of "out @ ?hdr @ ?lines"] obtain new
      where new: "snd (report_grouped e cs d (out @ ?hdr @ ?lines)) = out @ ?hdr @ ?lines @ new"
        and notin: "''Threat Classes:'' \<notin> set new" by auto
    have "''Threat Classes:'' \<notin> set ?lines" by auto
    with hdr notin have "''Threat Classes:'' \<notin> set (?hdr @ ?lines @ new)" by simp
    moreover from Inr new
    have "snd (report_grouped e (c # cs) d out) = out @ (?hdr @ ?lines @ new)" by simp
    ultimately show ?thesis by blast
  qed
qed

lemma output_report_frame:
  "output_report e classes d s = (r, s') \<Longrightarrow> world s' = world s \<and> calls s' = calls s"
  by (auto simp: output_report_def split: if_splits prod.splits option.splits)

text \<open>
  C3 says that in grouped mode a class absent from the mapping is still headed,
  renders no property lines, and that rendering never fails on a partially populated
  mapping.  The lookup \<^verbatim>\<open>prop_by_class[tclass]\<close> raises \<^verbatim>\<open>KeyError\<close> for an absent
  class: with \<open>phishing\<close> absent and first in the sequence, rendering ends after its
  header and \<open>malware\<close> gets no header at all.
\<close>

theorem grouped_report_absent_class_counterexample:
  "output_report (ex_env True (ex_args True None) ex_b1td)
       [JStr ''phishing'', JStr ''malware''] [(KStr ''malware'', [JStr ''trojan''])]
       (ex_state [] [])
     = (Some KeyError,
        \<lparr>world = \<lparr>files = [], denied = []\<rparr>,
         stdout = ['''', ''Threat Class: phishing'', '' Associated Threat Properties:''],
         calls = []\<rparr>)"
  by code_simp

text \<open>
  C3, amended.  In grouped mode the renderer goes through the class sequence in its
  order.  When every class is a key of the mapping, it prints for each class its
  header and then its property lines (none for an empty list), ends with an empty
  line and does not fail.  At the first class that is not a key, it prints the
  header of that class and raises \<^verbatim>\<open>KeyError\<close>; the classes after it are not rendered.
\<close>

theorem grouped_report_lines:
  "(d \<noteq> [] \<and> (\<forall>c\<in>set classes. \<exists>props. dict_getitem d c = Inr props)
      \<longrightarrow> output_report e classes d s
            = (None, s\<lparr>stdout := stdout s @ concat (map (class_block e d) classes) @ ['''']\<rparr>))
   \<and> (d \<noteq> [] \<and> (\<forall>c\<in>set pre. \<exists>props. dict_getitem d c = Inr props)
        \<and> key_of absent = Inr k \<and> map_of d k = None
      \<longrightarrow> output_report e (pre @ absent # post) d s
            = (Some KeyError,
               s\<lparr>stdout := stdout s @ concat (map (class_block e d) pre) @ class_header e absent\<rparr>))"
proof (intro conjI impI)
  assume "d \<noteq> [] \<and> (\<forall>c\<in>set classes. \<exists>props. dict_getitem d c = Inr props)"
  then show "output_report e classes d s
      = (None, s\<lparr>stdout := stdout s @ concat (map (class_block e d) classes) @ ['''']\<rparr>)"
    by (simp add: output_report_def report_grouped_present)
next
  assume a: "d \<noteq> [] \<and> (\<forall>c\<in>set pre. \<exists>props. dict_getitem d c = Inr props)
     \<and> key_of absent = Inr k \<and> map_of d k = None"
  then have "dict_getitem d absent = Inl KeyError"
    by (simp add: dict_getitem_def)
  with a have "report_grouped e (pre @ absent # post) d (stdout s)
      = (Some KeyError, stdout s @ concat (map (class_block e d) pre) @ class_header e absent)"
    by (simp add: report_grouped_absent)
  with a show "output_report e (pre @ absent # post) d s
      = (Some KeyError,
         s\<lparr>stdout := stdout s @ concat (map (class_block e d) pre) @ class_header e absent\<rparr>)"
    by (simp add: output_report_def)
qed

theorem grouped_report_lines_witness:
  "output_report (ex_env True (ex_args True None) ex_b1td)
       [JStr ''malware'', JStr ''phishing'']
       [(KStr ''malware'', [JStr ''trojan'']), (KStr ''phishing'', [])] (ex_state [] [])
     = (None,
        \<lparr>world = \<lparr>files = [], denied = []\<rparr>,
         stdout = ['''', ''Threat Class: malware'', '' Associated Threat Properties:'',
                   ''     trojan'',
                   '''', ''Threat Class: phishing'', '' Associated Threat Properties:'',
                   ''''],
         calls = []\<rparr>)
   \<and> output_report (ex_env True (ex_args True None) ex_b1td)
       ([JStr ''malware''] @ JStr ''phishing'' # [JStr ''botnet''])
       [(KStr ''malware'', [JStr ''trojan''])] (ex_state [] [])
     = (Some KeyError,
        \<lparr>world = \<lparr>files = [], denied = []\<rparr>,
         stdout = ['''', ''Threat Class: malware'', '' Associated Threat Properties:'',
                   ''     trojan'',
                   '''', ''Threat Class: phishing'', '' Associated Threat Properties:''],
         calls = []\<rparr>)"
proof -
  let ?e = "ex_env True (ex_args True None) ex_b1td"
  let ?d = "[(KStr ''malware'', [JStr ''trojan'']), (KStr ''phishing'', [])]"
  let ?d' = "[(KStr ''malware'', [JStr ''trojan''])]"
  have 1: "?d \<noteq> [] \<and> (\<forall>c\<in>set [JStr ''malware'', JStr ''phishing''].
             \<exists>props. dict_getitem ?d c = Inr props)"
    by (simp add: dict_getitem_def)
  have 2: "?d' \<noteq> [] \<and> (\<forall>c\<in>set [JStr ''malware'']. \<exists>props. dict_getitem ?d' c = Inr props)
     \<and> key_of (JStr ''phishing'') = Inr (KStr ''phishing'')
     \<and> map_of ?d' (KStr ''phishing'') = None"
    by (simp add: dict_getitem_def)
  from grouped_report_lines
         [of ?d "[JStr ''malware'', JStr ''phishing'']" ?e "ex_state [] []"]
       1
  have a: "output_report ?e [JStr ''malware'', JStr ''phishing''] ?d (ex_state [] [])
     = (None, (ex_state [] [])\<lparr>stdout := stdout (ex_state [] [])
          @ concat (map (class_block ?e ?d) [JStr ''malware'', JStr ''phishing'']) @ ['''']\<rparr>)"
    by blast
  from grouped_report_lines
         [where d = ?d' and pre = "[JStr ''malware'']" and absent = "JStr ''phishing''"
            and k = "KStr ''phishing''" and post = "[JStr ''botnet'']" and e = ?e
            and s = "ex_state [] []"]
       2
  have b: "output_report ?e ([JStr ''malware''] @ JStr ''phishing'' # [JStr ''botnet'']) ?d'
        (ex_state [] [])
     = (Some KeyError, (ex_state [] [])\<lparr>stdout := stdout (ex_state [] [])
          @ concat (map (class_block ?e ?d') [JStr ''malware''])
          @ class_header ?e (JStr ''phishing'')\<rparr>)"
    by blast
  show ?thesis
    unfolding a b
    by (simp add: class_block_def class_header_def props_of_def dict_getitem_def py_format_def
        ex_state_def)
qed

lemma report_grouped_starts:
  "\<exists>rest. snd (report_grouped e (c # cs) d out) = out @ class_header e c @ rest"
proof (cases "dict_getitem d c")
  case (Inl err)
  then show ?thesis by (simp add: class_header_def)
next
  case (Inr props)
  let ?lines = "map (\<lambda>prop. ''     '' @ py_format e prop) props"
  from report_grouped_lines [of e cs d "out @ class_header e c @ ?lines"] obtain new
    where "snd (report_grouped e cs d (out @ class_header e c @ ?lines))
             = out @ class_header e c @ ?lines @ new"
    by auto
  with Inr have "snd (report_grouped e (c # cs) d out) = out @ class_header e c @ (?lines @ new)"
    by (simp add: class_header_def)
  then show ?thesis by blast
qed

text \<open>
  C5.  The renderer is in flat mode exactly when the mapping is empty, and in grouped
  mode otherwise.  The header \<^verbatim>\<open>Threat Classes:\<close> is among the lines it prints if and
  only if the mapping has no key.  In flat mode it prints that one header, then one
  line for each class in the order of the sequence, then an empty line, and nothing
  of the grouped layout.  With a mapping that has a key, what it prints starts with
  the header of the first class; it is the blocks of all the classes and an empty
  line when every lookup succeeds, and the blocks of the classes before the first
  failing lookup followed by the header of that class otherwise.
\<close>

theorem report_mode_selection:
  "(''Threat Classes:'' \<in> set (drop (length (stdout s))
        (stdout (snd (output_report e classes prop_by_class s))))
      \<longleftrightarrow> prop_by_class = [])
   \<and> (prop_by_class = [] \<longrightarrow>
        output_report e classes prop_by_class s
          = (None, s\<lparr>stdout := stdout s @ [''Threat Classes:'']
                      @ map (\<lambda>tclass. ''     '' @ py_format e tclass) classes @ ['''']\<rparr>))
   \<and> (prop_by_class \<noteq> [] \<longrightarrow>
        (\<exists>rest. stdout (snd (output_report e (c # cs) prop_by_class s))
                  = stdout s @ class_header e c @ rest))
   \<and> (prop_by_class \<noteq> []
        \<and> (\<forall>x\<in>set classes. \<exists>props. dict_getitem prop_by_class x = Inr props) \<longrightarrow>
        output_report e classes prop_by_class s
          = (None, s\<lparr>stdout := stdout s
                      @ concat (map (class_block e prop_by_class) classes) @ ['''']\<rparr>))
   \<and> (prop_by_class \<noteq> []
        \<and> (\<forall>x\<in>set pre. \<exists>props. dict_getitem prop_by_class x = Inr props)
        \<and> dict_getitem prop_by_class failing = Inl err \<longrightarrow>
        output_report e (pre @ failing # post) prop_by_class s
          = (Some err, s\<lparr>stdout := stdout s
                      @ concat (map (class_block e prop_by_class) pre)
                      @ class_header e failing\<rparr>))"
proof (intro conjI)
  show "''Threat Classes:'' \<in> set (drop (length (stdout s))
        (stdout (snd (output_report e classes prop_by_class s))))
      \<longleftrightarrow> prop_by_class = []"
  proof (cases "prop_by_class = []")
    case True
    then show ?thesis by (simp add: output_report_def)
  next
    case False
    obtain new
      where new: "snd (report_grouped e classes prop_by_class (stdout s)) = stdout s @ new"
        and notin: "''Threat Classes:'' \<notin> set new"
      using report_grouped_lines by blast
    obtain r out where r: "report_grouped e classes prop_by_class (stdout s) = (r, out)"
      by (cases "report_grouped e classes prop_by_class (stdout s)")
    with new have out: "out = stdout s @ new" by simp
    from False r out notin show ?thesis
      by (cases r) (simp_all add: output_report_def)
  qed
next
  show "prop_by_class = [] \<longrightarrow>
        output_report e classes prop_by_class s
          = (None, s\<lparr>stdout := stdout s @ [''Threat Classes:'']
                      @ map (\<lambda>tclass. ''     '' @ py_format e tclass) classes @ ['''']\<rparr>)"
    by (simp add: output_report_def)
next
  show "prop_by_class \<noteq> [] \<longrightarrow>
        (\<exists>rest. stdout (snd (output_report e (c # cs) prop_by_class s))
                  = stdout s @ class_header e c @ rest)"
  proof
    assume ne: "prop_by_class \<noteq> []"
    obtain rest
      where rest: "snd (report_grouped e (c # cs) prop_by_class (stdout s))
                     = stdout s @ class_header e c @ rest"
      using report_grouped_starts by blast
    obtain r out where r: "report_grouped e (c # cs) prop_by_class (stdout s) = (r, out)"
      by (cases "report_grouped e (c # cs) prop_by_class (stdout s)")
    with rest have out: "out = stdout s @ class_header e c @ rest" by simp
    show "\<exists>rest. stdout (snd (output_report e (c # cs) prop_by_class s))
                  = stdout s @ class_header e c @ rest"
    proof (cases r)
      case None
      with ne r out
      have "stdout (snd (output_report e (c # cs) prop_by_class s))
              = stdout s @ class_header e c @ (rest @ [''''])"
        by (simp add: output_report_def)
      then show ?thesis by blast
    next
      case (Some err)
      with ne r out
      have "stdout (snd (output_report e (c # cs) prop_by_class s))
              = stdout s @ class_header e c @ rest"
        by (simp add: output_report_def)
      then show ?thesis by blast
    qed
  qed
next
  show "prop_by_class \<noteq> []
        \<and> (\<forall>x\<in>set classes. \<exists>props. dict_getitem prop_by_class x = Inr props) \<longrightarrow>
        output_report e classes prop_by_class s
          = (None, s\<lparr>stdout := stdout s
                      @ concat (map (class_block e prop_by_class) classes) @ ['''']\<rparr>)"
    by (simp add: output_report_def report_grouped_present)
next
  show "prop_by_class \<noteq> []
        \<and> (\<forall>x\<in>set pre. \<exists>props. dict_getitem prop_by_class x = Inr props)
        \<and> dict_getitem prop_by_class failing = Inl err \<longrightarrow>
        output_report e (pre @ failing # post) prop_by_class s
          = (Some err, s\<lparr>stdout := stdout s
                      @ concat (map (class_block e prop_by_class) pre)
                      @ class_header e failing\<rparr>)"
    by (simp add: output_report_def report_grouped_absent)
qed

theorem report_mode_selection_witness:
  "output_report (ex_env True (ex_args False None) ex_b1td)
       [JStr ''malware'', JStr ''phishing''] [] (ex_state [] [])
     = (None,
        \<lparr>world = \<lparr>files = [], denied = []\<rparr>,
         stdout = [''Threat Classes:'', ''     malware'', ''     phishing'', ''''],
         calls = []\<rparr>)
   \<and> output_report (ex_env True (ex_args True None) ex_b1td)
       [JStr ''malware'', JStr ''phishing'']
       [(KStr ''malware'', [JStr ''trojan'']), (KStr ''phishing'', [])] (ex_state [] [])
     = (None,
        \<lparr>world = \<lparr>files = [], denied = []\<rparr>,
         stdout = ['''', ''Threat Class: malware'', '' Associated Threat Properties:'',
                   ''     trojan'',
                   '''', ''Threat Class: phishing'', '' Associated Threat Properties:'',
                   ''''],
         calls = []\<rparr>)
   \<and> output_report (ex_env True (ex_args True None) ex_b1td)
       ([JStr ''malware''] @ JArr [] # [JStr ''phishing''])
       [(KStr ''malware'', [JStr ''trojan'']), (KStr ''phishing'', [])] (ex_state [] [])
     = (Some TypeError,
        \<lparr>world = \<lparr>files = [], denied = []\<rparr>,
         stdout = ['''', ''Threat Class: malware'', '' Associated Threat Properties:'',
                   ''     trojan'',
                   '''', ''Threat Class: ?'', '' Associated Threat Properties:''],
         calls = []\<rparr>)"
proof -
  let ?e = "ex_env True (ex_args False None) ex_b1td"
  let ?e' = "ex_env True (ex_args True None) ex_b1td"
  let ?cs = "[JStr ''malware'', JStr ''phishing'']"
  let ?d = "[(KStr ''malware'', [JStr ''trojan'']), (KStr ''phishing'', [])]"
  have flat: "([] :: dict) = []" by simp
  from report_mode_selection [of "ex_state [] []" ?e ?cs "[]"] flat
  have 1: "output_report ?e ?cs [] (ex_state [] [])
     = (None, (ex_state [] [])\<lparr>stdout := stdout (ex_state [] []) @ [''Threat Classes:'']
          @ map (\<lambda>tclass. ''     '' @ py_format ?e tclass) ?cs @ ['''']\<rparr>)"
    by blast
  have grouped: "?d \<noteq> [] \<and> (\<forall>x\<in>set ?cs. \<exists>props. dict_getitem ?d x = Inr props)"
    by (simp add: dict_getitem_def)
  have failing: "?d \<noteq> [] \<and> (\<forall>x\<in>set [JStr ''malware'']. \<exists>props. dict_getitem ?d x = Inr props)
      \<and> dict_getitem ?d (JArr []) = Inl TypeError"
    by (simp add: dict_getitem_def)
  from report_mode_selection
         [where s = "ex_state [] []" and e = ?e' and classes = ?cs and prop_by_class = ?d
            and pre = "[JStr ''malware'']" and failing = "JArr []" and err = TypeError
            and post = "[JStr ''phishing'']" and c = "JStr ''malware''"
            and cs = "[JStr ''phishing'']"]
       grouped failing
  have 2: "output_report ?e' ?cs ?d (ex_state [] [])
     = (None, (ex_state [] [])\<lparr>stdout := stdout (ex_state [] [])
          @ concat (map (class_block ?e' ?d) ?cs) @ ['''']\<rparr>)"
    and 3: "output_report ?e' ([JStr ''malware''] @ JArr [] # [JStr ''phishing'']) ?d
        (ex_state [] [])
     = (Some TypeError, (ex_state [] [])\<lparr>stdout := stdout (ex_state [] [])
          @ concat (map (class_block ?e' ?d) [JStr ''malware''])
          @ class_header ?e' (JArr [])\<rparr>)"
    by blast+
  show ?thesis
    unfolding 1 2 3
    by (simp add: class_block_def class_header_def props_of_def dict_getitem_def py_format_def
        ex_state_def ex_env_def)
qed

section \<open>The output file\<close>

text \<open>
  With the logger bound, \<^verbatim>\<open>open_file\<close> does what its handlers are written for: a file
  that exists is moved to the backup name first; when the move raises, nothing is
  opened and the result is \<^verbatim>\<open>False\<close>; when it succeeds, the file is opened for writing.
\<close>

lemma open_file_rename_failed:
  "log_defined e \<Longrightarrow> os_path_isfile e p (world s) \<Longrightarrow>
   shutil_move e p (p @ ''.bak'') (world s) = (Some err, w1) \<Longrightarrow>
     open_file e p s = (Inr None, record_call (Move p (p @ ''.bak'')) w1 s)"
  by (simp add: open_file_def log_call_def)

lemma open_file_renamed:
  "log_defined e \<Longrightarrow> os_path_isfile e p (world s) \<Longrightarrow>
   shutil_move e p (p @ ''.bak'') (world s) = (None, w1) \<Longrightarrow>
   open_w e p w1 = (Inr h, w2) \<Longrightarrow>
     open_file e p s
       = (Inr (Some h), record_call (Open p) w2 (record_call (Move p (p @ ''.bak'')) w1 s))"
  by (simp add: open_file_def log_call_def record_call_def)

text \<open>
  Every path through \<^verbatim>\<open>open_file\<close> calls a method of \<^verbatim>\<open>log\<close>.  Run as a script, the
  module never binds that name, so the function raises whatever the file system does.
\<close>

lemma open_file_unbound_log:
  "\<not> log_defined e \<Longrightarrow> \<exists>err. fst (open_file e p s) = Inl err"
  by (auto simp: open_file_def log_call_def Let_def split: prod.splits option.splits sum.splits)

lemma ex_open_report:
  "open_file (ex_env True (ex_args True (Some ''report.csv'')) b) ''report.csv'' (ex_state [] [])
     = (Inr (Some 3),
        \<lparr>world = \<lparr>files = [(''report.csv'', [])], denied = []\<rparr>,
         stdout = [], calls = [Open ''report.csv'']\<rparr>)"
  by (simp add: open_file_def ex_env_def ex_state_def ex_isfile_def ex_open_def log_call_def
      record_call_def)

text \<open>
  C6 says that when the rename of an existing output file fails, the open operation
  reports failure, creates no file, and the run goes on without CSV output, the
  console report still being printed.  The script run with \<^verbatim>\<open>-o report.csv\<close>, the file
  existing and its rename denied: the handler of the failed move calls \<^verbatim>\<open>log.warning\<close>,
  \<^verbatim>\<open>log\<close> is unbound in the module, and \<^verbatim>\<open>NameError\<close> leaves \<^verbatim>\<open>open_file\<close> and \<^verbatim>\<open>main\<close>;
  nothing is printed.
\<close>

theorem open_file_unbound_logger:
  "open_file (ex_env False (ex_args False (Some ''report.csv'')) ex_b1td) ''report.csv''
       (ex_state [(''report.csv'', ''old'')] [''report.csv''])
     = (Inl NameError,
        \<lparr>world = \<lparr>files = [(''report.csv'', ''old'')], denied = [''report.csv'']\<rparr>,
         stdout = [], calls = [Move ''report.csv'' ''report.csv.bak'']\<rparr>)
   \<and> main (ex_env False (ex_args False (Some ''report.csv'')) ex_b1td)
       (ex_state [(''report.csv'', ''old'')] [''report.csv''])
     = (Inl NameError,
        \<lparr>world = \<lparr>files = [(''report.csv'', ''old'')], denied = [''report.csv'']\<rparr>,
         stdout = [], calls = [Move ''report.csv'' ''report.csv.bak'']\<rparr>)"
  by code_simp

text \<open>
  C7 says that the output handle is closed exactly once on every path of a run that
  obtained it, also when a transport fault propagates.  \<^verbatim>\<open>main\<close> closes the file in its
  last statements only, outside any \<^verbatim>\<open>try\<close> or \<^verbatim>\<open>with\<close>: when the service cannot be
  reached, the run ends with the file opened and never closed.  So does the run of
  the script as it is, which opens the file and then raises \<^verbatim>\<open>NameError\<close> at the log
  call that follows.
\<close>

theorem handle_not_closed_on_fault_counterexample:
  "open_file (ex_env True (ex_args True (Some ''report.csv'')) unreachable_b1td) ''report.csv''
       (ex_state [] [])
     = (Inr (Some 3),
        \<lparr>world = \<lparr>files = [(''report.csv'', [])], denied = []\<rparr>,
         stdout = [], calls = [Open ''report.csv'']\<rparr>)
   \<and> main (ex_env True (ex_args True (Some ''report.csv'')) unreachable_b1td) (ex_state [] [])
     = (Inl TransportFault,
        \<lparr>world = \<lparr>files = [(''report.csv'', [])], denied = []\<rparr>,
         stdout = [], calls = [Open ''report.csv'']\<rparr>)
   \<and> count_list [Open ''report.csv''] (Close 3) = 0
   \<and> main (ex_env False (ex_args True (Some ''report.csv'')) ex_b1td) (ex_state [] [])
     = (Inl NameError,
        \<lparr>world = \<lparr>files = [(''report.csv'', [])], denied = []\<rparr>,
         stdout = [], calls = [Open ''report.csv'']\<rparr>)"
  by code_simp

text \<open>
  C7, amended.  A run that obtained an output handle and completes closes the handle
  exactly once, as its last file operation, whether or not anything was written; a
  run that ends with an exception after it obtained the handle does not close it.
\<close>

theorem handle_closed_on_completion_only:
  assumes "parseargs_result e = Inr a"
    and "bloxone_b1td e (if config a \<noteq> [] then config a else ''config.ini'') = Inr b"
    and "output_arg a = Some p" and "p \<noteq> []"
    and "open_file e p s = (Inr (Some h), s1)"
    and "main e s = (r, s')"
  shows "case r of Inr code \<Rightarrow> calls s' = calls s1 @ [Close h]
                 | Inl err \<Rightarrow> calls s' = calls s1"
  using assms
  by (auto simp: main_def Let_def record_call_def
      split: sum.splits prod.splits option.splits if_splits dest: output_report_frame)

theorem handle_closed_on_completion_only_witness:
  "calls (snd (main (ex_env True (ex_args True (Some ''report.csv'')) ex_b1td) (ex_state [] [])))
     = [Open ''report.csv'', Close 3]
   \<and> calls (snd (main (ex_env True (ex_args True (Some ''report.csv'')) unreachable_b1td)
        (ex_state [] [])))
     = [Open ''report.csv'']"
proof -
  let ?a = "ex_args True (Some ''report.csv'')"
  have a: "parseargs_result (ex_env True ?a b) = Inr ?a"
    "bloxone_b1td (ex_env True ?a b) (if config ?a \<noteq> [] then config ?a else ''config.ini'') = Inr b"
    "output_arg ?a = Some ''report.csv''" "''report.csv'' \<noteq> []" for b
    by (simp_all add: ex_env_def ex_args_def)
  have "fst (main (ex_env True ?a ex_b1td) (ex_state [] [])) = Inr 0"
    and "fst (main (ex_env True ?a unreachable_b1td) (ex_state [] [])) = Inl TransportFault"
    by code_simp+
  then have r1: "main (ex_env True ?a ex_b1td) (ex_state [] [])
        = (Inr 0, snd (main (ex_env True ?a ex_b1td) (ex_state [] [])))"
    and r2: "main (ex_env True ?a unreachable_b1td) (ex_state [] [])
        = (Inl TransportFault, snd (main (ex_env True ?a unreachable_b1td) (ex_state [] [])))"
    by (simp_all add: prod_eq_iff)
  from handle_closed_on_completion_only [OF a ex_open_report r1]
  have 1: "calls (snd (main (ex_env True ?a ex_b1td) (ex_state [] [])))
     = [Open ''report.csv'', Close 3]"
    by simp
  from handle_closed_on_completion_only [OF a ex_open_report r2]
  have 2: "calls (snd (main (ex_env True ?a unreachable_b1td) (ex_state [] [])))
     = [Open ''report.csv'']"
    by simp
  from 1 2 show ?thesis by simp
qed

text \<open>
  No statement of the file writes to the handle that \<^verbatim>\<open>open_file\<close> returns:
  \<^verbatim>\<open>output_report\<close> takes no file and only prints, and \<^verbatim>\<open>main\<close> does nothing with
  \<^verbatim>\<open>outfile\<close> but close it.  Whatever the environment, a run that opened the file and
  completes has printed the report on standard output, and the file system is what
  the opening left, closed.
\<close>

lemma main_never_writes:
  assumes "parseargs_result e = Inr a"
    and "bloxone_b1td e (if config a \<noteq> [] then config a else ''config.ini'') = Inr b"
    and "output_arg a = Some p" and "p \<noteq> []"
    and "open_file e p s = (Inr (Some h), s1)"
    and "main e s = (Inr code, s')"
  shows "\<exists>classes d s2. get_classes e b = Inr classes
           \<and> (if properties a then collect_properties e b classes [] else Inr []) = Inr d
           \<and> output_report e classes d s1 = (None, s2)
           \<and> stdout s' = stdout s2
           \<and> world s' = file_close e h (world s1)
           \<and> calls s' = calls s1 @ [Close h]"
proof -
  from assms obtain classes where c: "get_classes e b = Inr classes"
    by (auto simp: main_def Let_def split: sum.splits prod.splits option.splits if_splits)
  with assms obtain d
    where d: "(if properties a then collect_properties e b classes [] else Inr []) = Inr d"
    by (auto simp: main_def Let_def split: sum.splits prod.splits option.splits if_splits)
  with c assms obtain s2 where r: "output_report e classes d s1 = (None, s2)"
    and s': "s' = record_call (Close h) (file_close e h (world s2)) s2"
    by (auto simp: main_def Let_def split: sum.splits prod.splits option.splits if_splits)
  from output_report_frame [OF r] s'
  have "stdout s' = stdout s2" "world s' = file_close e h (world s1)"
    "calls s' = calls s1 @ [Close h]"
    by (simp_all add: record_call_def)
  with c d r show ?thesis by blast
qed

text \<open>
  C8 says that with an output destination given and its file opened, the rendered
  report is sent to the file as well as to the console.  The script declares as much
  (the option \<^verbatim>\<open>-o\<close> is documented as \<^verbatim>\<open>CSV Output to <filename>\<close>, and \<^verbatim>\<open>main\<close> sets up
  and closes an \<^verbatim>\<open>output file for CSV\<close>) and does not do it.  The run
  \<^verbatim>\<open>-p -o report.csv\<close> against the service of the scenario, no such file existing:
  \<^item> the script as it is opens \<open>report.csv\<close>, raises \<^verbatim>\<open>NameError\<close> at the log call that
    follows, and leaves the file empty and the console without a report;
  \<^item> with a logger bound in the module, the run completes, the console holds the nine
    lines of the report, and \<open>report.csv\<close> has been opened and closed and is empty.
\<close>

theorem report_not_written_to_file:
  "main (ex_env False (ex_args True (Some ''report.csv'')) ex_b1td) (ex_state [] [])
     = (Inl NameError,
        \<lparr>world = \<lparr>files = [(''report.csv'', [])], denied = []\<rparr>,
         stdout = [], calls = [Open ''report.csv'']\<rparr>)
   \<and> main (ex_env True (ex_args True (Some ''report.csv'')) ex_b1td) (ex_state [] [])
     = (Inr 0,
        \<lparr>world = \<lparr>files = [(''report.csv'', [])], denied = []\<rparr>,
         stdout = ['''', ''Threat Class: malware'', '' Associated Threat Properties:'',
                   ''     trojan'', ''     worm'',
                   '''', ''Threat Class: phishing'', '' Associated Threat Properties:'',
                   ''''],
         calls = [Open ''report.csv'', Close 3]\<rparr>)"
  by code_simp

section \<open>The exit code\<close>

text \<open>
  C9.  Whenever \<^verbatim>\<open>main\<close> reaches its end, the exit code it returns is 0; so it is when
  every remote call was answered with a status outside the ok-set and the report
  is empty.
\<close>

theorem main_exit_code:
  "main e s = (Inr code, s') \<Longrightarrow> code = 0"
  by (auto simp: main_def Let_def split: sum.splits option.splits prod.splits if_splits)

theorem main_exit_code_witness:
  "main (ex_env True (ex_args True None) failing_b1td) (ex_state [] [])
     = (Inr 0,
        \<lparr>world = \<lparr>files = [], denied = []\<rparr>, stdout = [''Threat Classes:'', ''''],
         calls = []\<rparr>)
   \<and> fst (main (ex_env False (ex_args False None) ex_b1td) (ex_state [] [])) = Inr 0"
proof -
  have "fst (main (ex_env True (ex_args True None) failing_b1td) (ex_state [] [])) = Inr 0"
    and "snd (main (ex_env True (ex_args True None) failing_b1td) (ex_state [] []))
      = \<lparr>world = \<lparr>files = [], denied = []\<rparr>, stdout = [''Threat Classes:'', ''''],
         calls = []\<rparr>"
    by code_simp+
  then have h: "main (ex_env True (ex_args True None) failing_b1td) (ex_state [] [])
     = (Inr 0,
        \<lparr>world = \<lparr>files = [], denied = []\<rparr>, stdout = [''Threat Classes:'', ''''],
         calls = []\<rparr>)"
    by (simp add: prod_eq_iff)
  have script: "fst (main (ex_env False (ex_args False None) ex_b1td) (ex_state [] [])) = Inr 0"
    by code_simp
  from main_exit_code [OF h] h script show ?thesis by simp
qed

end
